theory Spec2Isabelle
  imports Complex_Main
begin

section \<open>Data model\<close>

text \<open>
  The chemical state of \<^verbatim>\<open>Reaktoro/Core/ChemicalState.cpp\<close> and the species
  partition of \<^verbatim>\<open>Reaktor/Core/Partition.cpp\<close>.

  Conventions of the embedding:
  \<^item> a C++ \<^verbatim>\<open>double\<close> is a \<^typ>\<open>real\<close>: rounding, infinities and NaN are not
    modelled, and a division whose divisor the source does not guard against zero is a
    marked outcome at zero;
  \<^item> an \<^verbatim>\<open>Index\<close>, an \<^verbatim>\<open>unsigned\<close> counter and a vector size are a \<^typ>\<open>nat\<close>;
  \<^item> a \<^verbatim>\<open>Vector\<close> is a \<^typ>\<open>real list\<close> and \<^verbatim>\<open>Indices\<close> is a \<^typ>\<open>nat list\<close>;
  \<^item> an exception raised by \<^verbatim>\<open>Assert\<close>, \<^verbatim>\<open>RaiseError\<close> or \<^verbatim>\<open>RuntimeError\<close> is a
    value of type \<open>error\<close>, one constructor for each reason the source gives;
  \<^item> an element access outside a vector (undefined behaviour in C++) is an outcome
    of its own, distinct from every exception.

  The kinetic solver is present in the sources only through its Python binding
  (\<^verbatim>\<open>PyReaktoro/Kinetics/PyKineticSolver.cpp\<close>), which names its member functions and
  has none of their bodies; it is not modelled.
\<close>

record Species =
  species_name :: string
  molarMass :: real

text \<open>
  The class \<^verbatim>\<open>ChemicalSystem\<close> is a collaborator whose implementation is not part
  of the sources at hand. The members that the state calls are fields of the record:
  the species list, the names of the elements and phases, the contiguous species range
  of each phase, and the property evaluators at \<open>(T, P, n)\<close>. What the plain lookups
  \<^verbatim>\<open>indexSpecies\<close> and \<^verbatim>\<open>indexPhase\<close> return for a name that no entry has is stated
  neither by the sources nor by the spec: it is a field as well.
\<close>

record ChemicalSystem =
  species :: "Species list"
  element_names :: "string list"
  phase_names :: "string list"
  indexFirstSpeciesInPhase :: "nat \<Rightarrow> nat"
  numSpeciesInPhase :: "nat \<Rightarrow> nat"
  phaseVolumes :: "real \<Rightarrow> real \<Rightarrow> real list \<Rightarrow> real list"
  activities :: "real \<Rightarrow> real \<Rightarrow> real list \<Rightarrow> real list"
  elementAmount_of :: "nat \<Rightarrow> real list \<Rightarrow> real"
  elementAmountInPhase_of :: "nat \<Rightarrow> nat \<Rightarrow> real list \<Rightarrow> real"
  indexSpecies_unknown :: "string \<Rightarrow> nat"
  indexPhase_unknown :: "string \<Rightarrow> nat"

definition numSpecies :: "ChemicalSystem \<Rightarrow> nat" where
  "numSpecies sys = length (species sys)"

definition numElements :: "ChemicalSystem \<Rightarrow> nat" where
  "numElements sys = length (element_names sys)"

definition numPhases :: "ChemicalSystem \<Rightarrow> nat" where
  "numPhases sys = length (phase_names sys)"

section \<open>Species partition\<close>

record Partition =
  indices_equilibrium_species :: "nat list"
  indices_kinetic_species :: "nat list"
  indices_inert_species :: "nat list"

text \<open>
  Modelled from the spec: \<^verbatim>\<open>range\<close>, \<^verbatim>\<open>unify\<close> and \<^verbatim>\<open>difference\<close> of
  \<^verbatim>\<open>Reaktor/Common/SetUtils.hpp\<close> are not among the sources. Section 4.1 reads
  "equilibrium := all indices minus (kinetic \<union> inert)": \<open>range n\<close> lists the indices
  below \<open>n\<close>, \<open>unify\<close> is the union of two index collections (kept without
  duplicates, in increasing order), \<open>difference a b\<close> keeps the entries of \<open>a\<close>
  that do not occur in \<open>b\<close>, in the order of \<open>a\<close>.
\<close>

definition range_indices :: "nat \<Rightarrow> nat list" where
  "range_indices k = [0..<k]"

definition unify :: "nat list \<Rightarrow> nat list \<Rightarrow> nat list" where
  "unify a b = remdups (sort (a @ b))"

definition difference :: "nat list \<Rightarrow> nat list \<Rightarrow> nat list" where
  "difference a b = filter (\<lambda>x. x \<notin> set b) a"

definition allEquilibrium :: "ChemicalSystem \<Rightarrow> Partition" where
  "allEquilibrium sys =
     \<lparr>indices_equilibrium_species = range_indices (length (species sys)),
      indices_kinetic_species = [],
      indices_inert_species = []\<rparr>"

definition allKinetic :: "ChemicalSystem \<Rightarrow> Partition" where
  "allKinetic sys =
     \<lparr>indices_equilibrium_species = [],
      indices_kinetic_species = range_indices (length (species sys)),
      indices_inert_species = []\<rparr>"

definition allEquilibriumExcept :: "ChemicalSystem \<Rightarrow> nat list \<Rightarrow> nat list \<Rightarrow> Partition" where
  "allEquilibriumExcept sys ikinetic iinert =
     (let iequilibrium = range_indices (length (species sys));
          iequilibrium = difference iequilibrium (unify ikinetic iinert)
      in \<lparr>indices_equilibrium_species = iequilibrium,
          indices_kinetic_species = ikinetic,
          indices_inert_species = iinert\<rparr>)"

definition allKineticExcept :: "ChemicalSystem \<Rightarrow> nat list \<Rightarrow> nat list \<Rightarrow> Partition" where
  "allKineticExcept sys iequilibrium iinert =
     (let ikinetic = range_indices (length (species sys));
          ikinetic = difference ikinetic (unify iequilibrium iinert)
      in \<lparr>indices_equilibrium_species = iequilibrium,
          indices_kinetic_species = ikinetic,
          indices_inert_species = iinert\<rparr>)"

section \<open>Exceptions and outcomes\<close>

text \<open>
  Every exception of the source is an \<^verbatim>\<open>Exception\<close> carrying an error text and a
  reason text. One constructor stands for each reason:
  \<^item> \<open>NonPositiveTemperature\<close>, \<open>NonPositivePressure\<close>: "... with a non-positive value.";
  \<^item> \<open>NegativeAmount\<close>: "The given molar amount is negative.";
  \<^item> \<open>DimensionMismatch\<close>: "The dimension of the molar abundance vector is different
    than the number of species.";
  \<^item> \<open>IndicesDimensionMismatch\<close>: "... is different than the number of indices.";
  \<^item> \<open>SpeciesIndexOutOfRange\<close>: "The given index is out-of-range.";
  \<^item> \<open>NegativeVolume\<close>: "The given volume is negative.";
  \<^item> \<open>PhaseIndexOutOfRange\<close>: "The given phase index is out of range.";
  \<^item> \<open>NegativeScalar\<close>: "The given scalar is negative.";
  \<^item> \<open>NonAmountOrMassUnits u\<close>: "The provided units `u` is not convertible to units
    of amount or mass (e.g., mol and kg).";
  \<^item> \<open>InvalidQuantity s\<close>: "The provided string `s` does not represent a valid quantity.";
  \<^item> \<open>UnknownSpecies\<close>, \<open>UnknownElement\<close>, \<open>UnknownPhase\<close>: raised by the
    \<^verbatim>\<open>...WithError\<close> lookups of the chemical system;
  \<^item> \<open>UnitsNotConvertible from to\<close>: raised by \<^verbatim>\<open>units::convert\<close>.
\<close>

datatype error =
    NonPositiveTemperature
  | NonPositivePressure
  | NegativeAmount
  | DimensionMismatch
  | IndicesDimensionMismatch
  | SpeciesIndexOutOfRange
  | NegativeVolume
  | PhaseIndexOutOfRange
  | NegativeScalar
  | NonAmountOrMassUnits string
  | InvalidQuantity string
  | UnknownSpecies string
  | UnknownElement string
  | UnknownPhase string
  | UnitsNotConvertible string string

text \<open>
  A function that returns a value either returns it, throws, or reads outside a
  vector (\<open>OutOfBounds\<close>: undefined behaviour in C++, an assertion failure of the
  vector library in a debug build), or divides by zero (\<open>NonFinite\<close>: the code goes on
  with an infinity or a NaN, which is no real number, and the model follows it no
  further).
\<close>

datatype 'a result = Returns 'a | Throws error | OutOfBounds | NonFinite

definition then_result :: "'a result \<Rightarrow> ('a \<Rightarrow> 'b result) \<Rightarrow> 'b result" where
  "then_result r f =
     (case r of Returns v \<Rightarrow> f v | Throws e \<Rightarrow> Throws e | OutOfBounds \<Rightarrow> OutOfBounds
      | NonFinite \<Rightarrow> NonFinite)"

definition at_index :: "'a list \<Rightarrow> nat \<Rightarrow> 'a result" where
  "at_index xs i = (if i < length xs then Returns (xs ! i) else OutOfBounds)"

section \<open>Collaborators: name lookup, unit conversion, string splitting\<close>

text \<open>
  Modelled from the spec: the bodies of \<^verbatim>\<open>index\<close> (declared in
  \<^verbatim>\<open>Reaktoro/Core/Utils.hpp\<close> as "Return the index of an entry in a container") and of
  the lookups \<^verbatim>\<open>indexSpecies\<close>, \<^verbatim>\<open>indexPhase\<close>, \<^verbatim>\<open>indexSpeciesWithError\<close>,
  \<^verbatim>\<open>indexElementWithError\<close>, \<^verbatim>\<open>indexPhaseWithError\<close> of the chemical system are not
  among the sources. For a name that an entry has, a lookup gives the position of the
  first such entry. For a name that no entry has, a \<^verbatim>\<open>WithError\<close> lookup raises the
  lookup error of section 7, and a plain lookup returns what the system's field for
  unknown names says.
\<close>

primrec position :: "'a \<Rightarrow> 'a list \<Rightarrow> nat option" where
  "position x [] = None"
| "position x (y # ys) = (if x = y then Some 0 else map_option Suc (position x ys))"

definition indexSpecies :: "ChemicalSystem \<Rightarrow> string \<Rightarrow> nat" where
  "indexSpecies sys nm =
     (case position nm (map species_name (species sys)) of
        Some i \<Rightarrow> i | None \<Rightarrow> indexSpecies_unknown sys nm)"

definition indexPhase :: "ChemicalSystem \<Rightarrow> string \<Rightarrow> nat" where
  "indexPhase sys nm =
     (case position nm (phase_names sys) of
        Some i \<Rightarrow> i | None \<Rightarrow> indexPhase_unknown sys nm)"

definition indexSpeciesWithError :: "ChemicalSystem \<Rightarrow> string \<Rightarrow> nat result" where
  "indexSpeciesWithError sys nm =
     (case position nm (map species_name (species sys)) of
        Some i \<Rightarrow> Returns i | None \<Rightarrow> Throws (UnknownSpecies nm))"

definition indexElementWithError :: "ChemicalSystem \<Rightarrow> string \<Rightarrow> nat result" where
  "indexElementWithError sys nm =
     (case position nm (element_names sys) of
        Some i \<Rightarrow> Returns i | None \<Rightarrow> Throws (UnknownElement nm))"

definition indexPhaseWithError :: "ChemicalSystem \<Rightarrow> string \<Rightarrow> nat result" where
  "indexPhaseWithError sys nm =
     (case position nm (phase_names sys) of
        Some i \<Rightarrow> Returns i | None \<Rightarrow> Throws (UnknownPhase nm))"

text \<open>
  Modelled from the spec: \<^verbatim>\<open>units::convertible\<close> and \<^verbatim>\<open>units::convert\<close> of
  \<^verbatim>\<open>Reaktoro/Common/Units.hpp\<close> are not among the sources. Section 6 names "a
  unit-conversion utility (string-based convertibility test and conversion)" and
  section 7 a unit error for a "unit string not convertible to the required
  dimension". The test and the conversion of convertible units are parameters.
\<close>

record Units =
  convertible :: "string \<Rightarrow> string \<Rightarrow> bool"
  convert :: "real \<Rightarrow> string \<Rightarrow> string \<Rightarrow> real"

definition units_convert :: "Units \<Rightarrow> real \<Rightarrow> string \<Rightarrow> string \<Rightarrow> real result" where
  "units_convert U v from to =
     (if convertible U from to then Returns (convert U v from to)
      else Throws (UnitsNotConvertible from to))"

text \<open>
  Modelled from the spec: \<^verbatim>\<open>split\<close> of \<^verbatim>\<open>Reaktoro/Common/StringUtils.hpp\<close> is not
  among the sources. It is used on the grammar \<^verbatim>\<open><kind>[<name>](:<units>)\<close> of section
  4.2: the string is cut at every character of the delimiter string, and the non-empty
  pieces are returned in order.
\<close>

primrec split_from :: "string \<Rightarrow> string \<Rightarrow> string \<Rightarrow> string list" where
  "split_from delims word [] = (if word = [] then [] else [word])"
| "split_from delims word (c # cs) =
     (if c \<in> set delims
      then (if word = [] then [] else [word]) @ split_from delims [] cs
      else split_from delims (word @ [c]) cs)"

definition split :: "string \<Rightarrow> string \<Rightarrow> string list" where
  "split str delims = split_from delims [] str"

section \<open>Chemical state\<close>

text \<open>
  \<^verbatim>\<open>ChemicalState::Impl\<close>: the system, \<open>T\<close>, \<open>P\<close>, \<open>n\<close>, \<open>y\<close> and \<open>z\<close>. The fields
  carry the names of their accessors \<^verbatim>\<open>system()\<close>, \<^verbatim>\<open>temperature()\<close>,
  \<^verbatim>\<open>pressure()\<close>, \<^verbatim>\<open>speciesAmounts()\<close>, \<^verbatim>\<open>elementPotentials()\<close> and
  \<^verbatim>\<open>speciesPotentials()\<close>.
\<close>

record ChemicalState =
  system :: ChemicalSystem
  temperature :: real
  pressure :: real
  speciesAmounts :: "real list"
  elementPotentials :: "real list"
  speciesPotentials :: "real list"

definition zeros :: "nat \<Rightarrow> real list" where
  "zeros k = replicate k 0"

definition ChemicalState_of :: "ChemicalSystem \<Rightarrow> ChemicalState" where
  "ChemicalState_of sys =
     \<lparr>system = sys, temperature = 298.15, pressure = 100000,
      speciesAmounts = zeros (numSpecies sys),
      elementPotentials = zeros (numElements sys),
      speciesPotentials = zeros (numSpecies sys)\<rparr>"

text \<open>
  A mutator is called on a state. It returns normally and leaves the state \<open>st'\<close>
  (\<open>Done st'\<close>), or it throws \<open>e\<close> and the object it was called on is left as
  \<open>st'\<close> (\<open>Raised e st'\<close>), or it accesses a vector out of range (\<open>Fault\<close>, after
  which C++ promises nothing about the state), or it goes on with the infinity or NaN
  of a division by zero (\<open>NonFiniteAmount\<close>, where the model follows it no further).
\<close>

datatype outcome = Done ChemicalState | Raised error ChemicalState | Fault | NonFiniteAmount

definition with_value :: "'a result \<Rightarrow> ChemicalState \<Rightarrow> ('a \<Rightarrow> outcome) \<Rightarrow> outcome" where
  "with_value r st f =
     (case r of Returns v \<Rightarrow> f v | Throws e \<Rightarrow> Raised e st | OutOfBounds \<Rightarrow> Fault
      | NonFinite \<Rightarrow> NonFiniteAmount)"

subsection \<open>Temperature and pressure\<close>

definition setTemperature :: "real \<Rightarrow> ChemicalState \<Rightarrow> outcome" where
  "setTemperature val st =
     (if \<not> val > 0 then Raised NonPositiveTemperature st
      else Done (st\<lparr>temperature := val\<rparr>))"

definition setTemperature_units :: "Units \<Rightarrow> real \<Rightarrow> string \<Rightarrow> ChemicalState \<Rightarrow> outcome" where
  "setTemperature_units U val units st =
     with_value (units_convert U val units ''kelvin'') st (\<lambda>v. setTemperature v st)"

definition setPressure :: "real \<Rightarrow> ChemicalState \<Rightarrow> outcome" where
  "setPressure val st =
     (if \<not> val > 0 then Raised NonPositivePressure st
      else Done (st\<lparr>pressure := val\<rparr>))"

definition setPressure_units :: "Units \<Rightarrow> real \<Rightarrow> string \<Rightarrow> ChemicalState \<Rightarrow> outcome" where
  "setPressure_units U val units st =
     with_value (units_convert U val units ''pascal'') st (\<lambda>v. setPressure v st)"

subsection \<open>Writing into the amount vector\<close>

text \<open>
  \<^verbatim>\<open>rows(pimpl->n, indices) = n\<close> writes the entries of the given vector at the given
  indices, one after the other. Nothing checks an index against the size of the
  vector: an index outside it ends the run with \<open>None\<close>.
\<close>

fun assign_rows :: "nat list \<Rightarrow> real list \<Rightarrow> real list \<Rightarrow> real list option" where
  "assign_rows (i # is) (x # xs) v =
     (if i < length v then assign_rows is xs (v[i := x]) else None)"
| "assign_rows _ _ v = Some v"

text \<open>
  \<^verbatim>\<open>for(unsigned i = 0; i < size; ++i) pimpl->n[start + i] *= scalar;\<close> with the
  position \<open>start + i\<close> and the number of remaining rounds as arguments.
\<close>

fun scale_rows :: "real \<Rightarrow> nat \<Rightarrow> nat \<Rightarrow> real list \<Rightarrow> real list option" where
  "scale_rows scalar pos 0 v = Some v"
| "scale_rows scalar pos (Suc k) v =
     (if pos < length v then scale_rows scalar (Suc pos) k (v[pos := v ! pos * scalar])
      else None)"

definition stored :: "ChemicalState \<Rightarrow> real list option \<Rightarrow> outcome" where
  "stored st r = (case r of Some v \<Rightarrow> Done (st\<lparr>speciesAmounts := v\<rparr>) | None \<Rightarrow> Fault)"

subsection \<open>Species amounts\<close>

definition setSpeciesAmounts_scalar :: "real \<Rightarrow> ChemicalState \<Rightarrow> outcome" where
  "setSpeciesAmounts_scalar val st =
     (if \<not> val \<ge> 0 then Raised NegativeAmount st
      else Done (st\<lparr>speciesAmounts := replicate (length (speciesAmounts st)) val\<rparr>))"

definition setSpeciesAmounts :: "real list \<Rightarrow> ChemicalState \<Rightarrow> outcome" where
  "setSpeciesAmounts v st =
     (if \<not> length v = numSpecies (system st) then Raised DimensionMismatch st
      else Done (st\<lparr>speciesAmounts := v\<rparr>))"

definition setSpeciesAmounts_indices :: "real list \<Rightarrow> nat list \<Rightarrow> ChemicalState \<Rightarrow> outcome" where
  "setSpeciesAmounts_indices v indices st =
     (if \<not> length v = length indices then Raised IndicesDimensionMismatch st
      else stored st (assign_rows indices v (speciesAmounts st)))"

definition setSpeciesAmount :: "nat \<Rightarrow> real \<Rightarrow> ChemicalState \<Rightarrow> outcome" where
  "setSpeciesAmount index amount st =
     (let num_species = length (species (system st))
      in if \<not> amount \<ge> 0 then Raised NegativeAmount st
         else if \<not> index < num_species then Raised SpeciesIndexOutOfRange st
         else if index < length (speciesAmounts st)
              then Done (st\<lparr>speciesAmounts := (speciesAmounts st)[index := amount]\<rparr>)
              else Fault)"

definition setSpeciesAmount_name :: "string \<Rightarrow> real \<Rightarrow> ChemicalState \<Rightarrow> outcome" where
  "setSpeciesAmount_name nm amount st =
     with_value (indexSpeciesWithError (system st) nm) st
       (\<lambda>index. setSpeciesAmount index amount st)"

text \<open>
  The quotient \<^verbatim>\<open>units::convert(amount, units, "kg")/molar_mass\<close> by a molar mass of
  zero is an infinity or a NaN: \<^verbatim>\<open>setSpeciesAmount\<close> then throws (NaN, negative
  infinity) or stores an infinite amount. The reals have neither, and the outcome is
  \<open>NonFiniteAmount\<close>.
\<close>

definition setSpeciesAmount_units :: "Units \<Rightarrow> nat \<Rightarrow> real \<Rightarrow> string \<Rightarrow> ChemicalState \<Rightarrow> outcome" where
  "setSpeciesAmount_units U index amount units st =
     (if convertible U units ''mol''
      then with_value (units_convert U amount units ''mol'') st
             (\<lambda>a. setSpeciesAmount index a st)
      else if convertible U units ''kg''
      then with_value (at_index (species (system st)) index) st
             (\<lambda>sp. let molar_mass = molarMass sp
                   in with_value (units_convert U amount units ''kg'') st
                        (\<lambda>m. if molar_mass = 0 then NonFiniteAmount
                             else setSpeciesAmount index (m / molar_mass) st))
      else Raised (NonAmountOrMassUnits units) st)"

definition setSpeciesAmount_name_units ::
  "Units \<Rightarrow> string \<Rightarrow> real \<Rightarrow> string \<Rightarrow> ChemicalState \<Rightarrow> outcome" where
  "setSpeciesAmount_name_units U nm amount units st =
     with_value (indexSpeciesWithError (system st) nm) st
       (\<lambda>index. setSpeciesAmount_units U index amount units st)"

subsection \<open>Potentials\<close>

definition setElementPotentials :: "real list \<Rightarrow> ChemicalState \<Rightarrow> outcome" where
  "setElementPotentials y st = Done (st\<lparr>elementPotentials := y\<rparr>)"

definition setSpeciesPotentials :: "real list \<Rightarrow> ChemicalState \<Rightarrow> outcome" where
  "setSpeciesPotentials z st = Done (st\<lparr>speciesPotentials := z\<rparr>)"

subsection \<open>Scaling and volumes\<close>

definition scaleSpeciesAmounts :: "real \<Rightarrow> ChemicalState \<Rightarrow> outcome" where
  "scaleSpeciesAmounts scalar st =
     (if \<not> scalar \<ge> 0 then Raised NegativeScalar st
      else stored st (scale_rows scalar 0 (length (speciesAmounts st)) (speciesAmounts st)))"

definition scaleSpeciesAmountsInPhase :: "nat \<Rightarrow> real \<Rightarrow> ChemicalState \<Rightarrow> outcome" where
  "scaleSpeciesAmountsInPhase index scalar st =
     (if \<not> scalar \<ge> 0 then Raised NegativeScalar st
      else if \<not> index < numPhases (system st) then Raised PhaseIndexOutOfRange st
      else let start = indexFirstSpeciesInPhase (system st) index;
               size = numSpeciesInPhase (system st) index
           in stored st (scale_rows scalar start size (speciesAmounts st)))"

definition setVolume :: "real \<Rightarrow> ChemicalState \<Rightarrow> outcome" where
  "setVolume volume st =
     (if \<not> volume \<ge> 0 then Raised NegativeVolume st
      else let T = temperature st;
               P = pressure st;
               n = speciesAmounts st;
               v = phaseVolumes (system st) T P n;
               vtotal = sum_list v;
               scalar = (if vtotal \<noteq> 0 then volume / vtotal else 0)
           in scaleSpeciesAmounts scalar st)"

definition setPhaseVolume :: "nat \<Rightarrow> real \<Rightarrow> ChemicalState \<Rightarrow> outcome" where
  "setPhaseVolume index volume st =
     (if \<not> volume \<ge> 0 then Raised NegativeVolume st
      else if \<not> index < numPhases (system st) then Raised PhaseIndexOutOfRange st
      else let T = temperature st;
               P = pressure st;
               n = speciesAmounts st;
               v = phaseVolumes (system st) T P n
           in with_value (at_index v index) st
                (\<lambda>vi. let scalar = (if vi \<noteq> 0 then volume / vi else 0)
                      in scaleSpeciesAmountsInPhase index scalar st))"

definition setPhaseVolume_name :: "string \<Rightarrow> real \<Rightarrow> ChemicalState \<Rightarrow> outcome" where
  "setPhaseVolume_name nm volume st =
     (let index = indexPhase (system st) nm in setPhaseVolume index volume st)"

subsection \<open>Operators\<close>

text \<open>
  The operators copy an operand, call a mutator on the copy and return it; an
  exception of the mutator leaves the operator, and the copy is lost. The sum
  \<^verbatim>\<open>nl + nr\<close> of two vectors of different sizes is outside what the vector library
  defines.
\<close>

definition returned :: "outcome \<Rightarrow> ChemicalState result" where
  "returned out =
     (case out of Done st \<Rightarrow> Returns st | Raised e st \<Rightarrow> Throws e | Fault \<Rightarrow> OutOfBounds
      | NonFiniteAmount \<Rightarrow> NonFinite)"

definition vector_sum :: "real list \<Rightarrow> real list \<Rightarrow> real list result" where
  "vector_sum a b = (if length a = length b then Returns (map2 (+) a b) else OutOfBounds)"

definition state_plus :: "ChemicalState \<Rightarrow> ChemicalState \<Rightarrow> ChemicalState result" where
  "state_plus l r =
     (let nl = speciesAmounts l;
          nr = speciesAmounts r;
          res = l
      in then_result (vector_sum nl nr) (\<lambda>s. returned (setSpeciesAmounts s res)))"

definition scalar_times :: "real \<Rightarrow> ChemicalState \<Rightarrow> ChemicalState result" where
  "scalar_times scalar state = (let res = state in returned (scaleSpeciesAmounts scalar res))"

definition state_times :: "ChemicalState \<Rightarrow> real \<Rightarrow> ChemicalState result" where
  "state_times state scalar = scalar_times scalar state"

subsection \<open>Accessors\<close>

definition speciesAmount :: "ChemicalState \<Rightarrow> nat \<Rightarrow> real result" where
  "speciesAmount st index =
     (if \<not> index < numSpecies (system st) then Throws SpeciesIndexOutOfRange
      else at_index (speciesAmounts st) index)"

definition speciesAmount_name :: "ChemicalState \<Rightarrow> string \<Rightarrow> real result" where
  "speciesAmount_name st nm =
     then_result (indexSpeciesWithError (system st) nm) (speciesAmount st)"

definition speciesAmount_name_units :: "Units \<Rightarrow> ChemicalState \<Rightarrow> string \<Rightarrow> string \<Rightarrow> real result" where
  "speciesAmount_name_units U st nm units =
     then_result (speciesAmount_name st nm) (\<lambda>v. units_convert U v ''mol'' units)"

definition elementAmount :: "ChemicalState \<Rightarrow> nat \<Rightarrow> real" where
  "elementAmount st ielement = elementAmount_of (system st) ielement (speciesAmounts st)"

definition elementAmount_name :: "ChemicalState \<Rightarrow> string \<Rightarrow> real result" where
  "elementAmount_name st element =
     then_result (indexElementWithError (system st) element)
       (\<lambda>i. Returns (elementAmount st i))"

definition elementAmount_name_units :: "Units \<Rightarrow> ChemicalState \<Rightarrow> string \<Rightarrow> string \<Rightarrow> real result" where
  "elementAmount_name_units U st nm units =
     then_result (elementAmount_name st nm) (\<lambda>v. units_convert U v ''mol'' units)"

definition elementAmountInPhase :: "ChemicalState \<Rightarrow> nat \<Rightarrow> nat \<Rightarrow> real" where
  "elementAmountInPhase st ielement iphase =
     elementAmountInPhase_of (system st) ielement iphase (speciesAmounts st)"

definition elementAmountInPhase_name :: "ChemicalState \<Rightarrow> string \<Rightarrow> string \<Rightarrow> real result" where
  "elementAmountInPhase_name st element phase =
     then_result (indexElementWithError (system st) element)
       (\<lambda>ielement. then_result (indexPhaseWithError (system st) phase)
          (\<lambda>iphase. Returns (elementAmountInPhase st ielement iphase)))"

definition elementAmountInPhase_name_units ::
  "Units \<Rightarrow> ChemicalState \<Rightarrow> string \<Rightarrow> string \<Rightarrow> string \<Rightarrow> real result" where
  "elementAmountInPhase_name_units U st element phase units =
     then_result (elementAmountInPhase_name st element phase)
       (\<lambda>v. units_convert U v ''mol'' units)"

subsection \<open>Quantity extraction\<close>


definition first_char :: "string \<Rightarrow> char" where
  "first_char q = (case q of [] \<Rightarrow> CHR 0x00 | c # _ \<Rightarrow> c)"

definition back_word :: "'a list \<Rightarrow> 'a result" where
  "back_word ws = (if ws = [] then OutOfBounds else Returns (last ws))"

text \<open>
  \<^verbatim>\<open>extract\<close> (here \<open>extract_quantity\<close>) takes the state by constant reference and
  returns a number. The molar
  mass of water (\<^verbatim>\<open>waterMolarMass\<close> of \<^verbatim>\<open>WaterConstants.hpp\<close>, not among the
  sources) is a parameter. The branches are tried in the order of the source:
  the first character \<open>n\<close>, \<open>b\<close>, \<open>m\<close>, \<open>a\<close>, then the whole word \<open>pH\<close>. The
  molality of a state without water is a quotient by zero: an infinity or a NaN, which
  \<^verbatim>\<open>units::convert\<close> then converts or refuses.
\<close>

definition extract_quantity :: "Units \<Rightarrow> real \<Rightarrow> ChemicalState \<Rightarrow> string \<Rightarrow> real result" where
  "extract_quantity U waterMolarMass state str =
     (let words = split str '':''
      in then_result (at_index words 0) (\<lambda>quantity.
           let units = (if length words > 1 then words ! 1 else []);
               T = temperature state;
               P = pressure state;
               n = speciesAmounts state;
               a = activities (system state) T P n
           in if first_char quantity = CHR ''n'' then
                (let units = (if units = [] then ''mol'' else units)
                 in then_result (back_word (split quantity ''[]'')) (\<lambda>species.
                      speciesAmount_name_units U state species units))
              else if first_char quantity = CHR ''b'' then
                (let units = (if units = [] then ''mol'' else units);
                     names = split quantity ''[]''
                 in then_result (at_index names 1) (\<lambda>element.
                      let phase = (if length names > 2 then names ! 2 else [])
                      in if phase = [] then elementAmount_name_units U state element units
                         else elementAmountInPhase_name_units U state element phase units))
              else if first_char quantity = CHR ''m'' then
                (let units = (if units = [] then ''molal'' else units)
                 in then_result (back_word (split quantity ''[]'')) (\<lambda>species.
                    then_result (speciesAmount_name state ''H2O(l)'') (\<lambda>nH2O.
                    then_result (speciesAmount_name state species) (\<lambda>ni.
                      if nH2O * waterMolarMass = 0
                      then (if convertible U ''molal'' units then NonFinite
                            else Throws (UnitsNotConvertible ''molal'' units))
                      else let mi = ni / (nH2O * waterMolarMass)
                           in units_convert U mi ''molal'' units))))
              else if first_char quantity = CHR ''a'' then
                then_result (back_word (split quantity ''[]'')) (\<lambda>species.
                  let index = indexSpecies (system state) species
                  in at_index a index)
              else if quantity = ''pH'' then
                (let iH = indexSpecies (system state) ''H+''
                 in then_result (at_index a iH) (\<lambda>aH. Returns (- log 10 aH)))
              else Throws (InvalidQuantity str)))"

section \<open>The mutators as one interface\<close>

text \<open>
  One constructor for each mutator of \<^verbatim>\<open>ChemicalState\<close> with its arguments, and the
  call of a mutator on a state.
\<close>

datatype mutation =
    SetTemperature real
  | SetTemperatureUnits real string
  | SetPressure real
  | SetPressureUnits real string
  | SetSpeciesAmountsScalar real
  | SetSpeciesAmounts "real list"
  | SetSpeciesAmountsIndices "real list" "nat list"
  | SetSpeciesAmount nat real
  | SetSpeciesAmountName string real
  | SetSpeciesAmountUnits nat real string
  | SetSpeciesAmountNameUnits string real string
  | SetElementPotentials "real list"
  | SetSpeciesPotentials "real list"
  | SetVolume real
  | SetPhaseVolume nat real
  | SetPhaseVolumeName string real
  | ScaleSpeciesAmounts real
  | ScaleSpeciesAmountsInPhase nat real

fun call :: "Units \<Rightarrow> mutation \<Rightarrow> ChemicalState \<Rightarrow> outcome" where
  "call U (SetTemperature v) st = setTemperature v st"
| "call U (SetTemperatureUnits v u) st = setTemperature_units U v u st"
| "call U (SetPressure v) st = setPressure v st"
| "call U (SetPressureUnits v u) st = setPressure_units U v u st"
| "call U (SetSpeciesAmountsScalar v) st = setSpeciesAmounts_scalar v st"
| "call U (SetSpeciesAmounts v) st = setSpeciesAmounts v st"
| "call U (SetSpeciesAmountsIndices v is) st = setSpeciesAmounts_indices v is st"
| "call U (SetSpeciesAmount i a) st = setSpeciesAmount i a st"
| "call U (SetSpeciesAmountName nm a) st = setSpeciesAmount_name nm a st"
| "call U (SetSpeciesAmountUnits i a u) st = setSpeciesAmount_units U i a u st"
| "call U (SetSpeciesAmountNameUnits nm a u) st = setSpeciesAmount_name_units U nm a u st"
| "call U (SetElementPotentials y) st = setElementPotentials y st"
| "call U (SetSpeciesPotentials z) st = setSpeciesPotentials z st"
| "call U (SetVolume v) st = setVolume v st"
| "call U (SetPhaseVolume i v) st = setPhaseVolume i v st"
| "call U (SetPhaseVolumeName nm v) st = setPhaseVolume_name nm v st"
| "call U (ScaleSpeciesAmounts s) st = scaleSpeciesAmounts s st"
| "call U (ScaleSpeciesAmountsInPhase i s) st = scaleSpeciesAmountsInPhase i s st"

text \<open>
  The invariant of section 3: \<open>T > 0\<close>, \<open>P > 0\<close> and no negative amount.
\<close>

definition invariant :: "ChemicalState \<Rightarrow> bool" where
  "invariant st \<longleftrightarrow>
     temperature st > 0 \<and> pressure st > 0 \<and> list_all (\<lambda>x. 0 \<le> x) (speciesAmounts st)"

text \<open>
  A state bound to a system: the system it was constructed from, with one amount for
  each species. The constructor establishes it and every mutator keeps it.
\<close>

definition bound_to :: "ChemicalSystem \<Rightarrow> ChemicalState \<Rightarrow> bool" where
  "bound_to sys st \<longleftrightarrow> system st = sys \<and> length (speciesAmounts st) = numSpecies sys"

text \<open>
  A small system for concrete evaluations: one aqueous phase with the species
  \<open>H2O(l)\<close> and \<open>H+\<close>, every activity and every phase volume equal to one, whose
  plain lookups return the number of entries for an unknown name; the same system
  with water as its only species; and a unit table that knows \<open>mol\<close> and \<open>kg\<close>
  only and converts each to itself.
\<close>

definition demo_system :: ChemicalSystem where
  "demo_system =
     \<lparr>species = [\<lparr>species_name = ''H2O(l)'', molarMass = 0.018\<rparr>,
                 \<lparr>species_name = ''H+'', molarMass = 0.001\<rparr>],
      element_names = [''H'', ''O''],
      phase_names = [''Aqueous''],
      indexFirstSpeciesInPhase = (\<lambda>i. 0),
      numSpeciesInPhase = (\<lambda>i. 2),
      phaseVolumes = (\<lambda>T P n. [1]),
      activities = (\<lambda>T P n. [1, 1]),
      elementAmount_of = (\<lambda>j n. 0),
      elementAmountInPhase_of = (\<lambda>j i n. 0),
      indexSpecies_unknown = (\<lambda>nm. 2),
      indexPhase_unknown = (\<lambda>nm. 1)\<rparr>"

definition water_only :: ChemicalSystem where
  "water_only = demo_system\<lparr>species := [\<lparr>species_name = ''H2O(l)'', molarMass = 0.018\<rparr>],
                            numSpeciesInPhase := (\<lambda>i. 1),
                            activities := (\<lambda>T P n. [1]),
                            indexSpecies_unknown := (\<lambda>nm. 1)\<rparr>"

definition demo_units :: Units where
  "demo_units = \<lparr>convertible = (\<lambda>from to. from = to \<and> (from = ''mol'' \<or> from = ''kg'')),
                 convert = (\<lambda>v from to. v)\<rparr>"

section \<open>Properties of the species partition\<close>

lemma set_unify: "set (unify a b) = set a \<union> set b"
  by (simp add: unify_def)

lemma set_difference: "set (difference a b) = set a - set b"
  by (auto simp: difference_def)

text \<open>
  Claim C5. For a system with \<open>N\<close> species and index collections \<open>K\<close> and \<open>I\<close>,
  \<open>allEquilibriumExcept\<close> passes \<open>K\<close> and \<open>I\<close> through as the kinetic and inert
  sets, and its equilibrium set is \<open>{0..<N}\<close> minus \<open>K \<union> I\<close>; so the equilibrium
  set meets neither \<open>K\<close> nor \<open>I\<close>, and when every index of \<open>K\<close> and \<open>I\<close> is below
  \<open>N\<close> the three sets together are the whole index range. Disjointness of \<open>K\<close> and
  \<open>I\<close> is not needed for any of this.
\<close>

theorem allEquilibriumExcept_partition:
  assumes "\<forall>i \<in> set K \<union> set I. i < numSpecies sys"
  shows "indices_kinetic_species (allEquilibriumExcept sys K I) = K
       \<and> indices_inert_species (allEquilibriumExcept sys K I) = I
       \<and> set (indices_equilibrium_species (allEquilibriumExcept sys K I))
           = {0..<numSpecies sys} - (set K \<union> set I)
       \<and> set (indices_equilibrium_species (allEquilibriumExcept sys K I)) \<inter> set K = {}
       \<and> set (indices_equilibrium_species (allEquilibriumExcept sys K I)) \<inter> set I = {}
       \<and> set (indices_equilibrium_species (allEquilibriumExcept sys K I)) \<union> set K \<union> set I
           = {0..<numSpecies sys}"
proof -
  let ?p = "allEquilibriumExcept sys K I"
  have eq: "set (indices_equilibrium_species ?p) = {0..<numSpecies sys} - (set K \<union> set I)"
    by (simp add: allEquilibriumExcept_def Let_def range_indices_def numSpecies_def
        set_difference set_unify)
  have sub: "set K \<union> set I \<subseteq> {0..<numSpecies sys}"
    using assms by auto
  have k: "indices_kinetic_species ?p = K" and i: "indices_inert_species ?p = I"
    by (simp_all add: allEquilibriumExcept_def Let_def)
  from eq sub have "set (indices_equilibrium_species ?p) \<union> set K \<union> set I = {0..<numSpecies sys}"
    by blast
  moreover from eq have "set (indices_equilibrium_species ?p) \<inter> set K = {}"
    and "set (indices_equilibrium_species ?p) \<inter> set I = {}"
    by blast+
  ultimately show ?thesis using eq k i by simp
qed

theorem allEquilibriumExcept_partition_witness:
  "list_all (\<lambda>i. i < numSpecies demo_system) ([1] @ [])
   \<and> indices_kinetic_species (allEquilibriumExcept demo_system [1] []) = [1]
   \<and> indices_inert_species (allEquilibriumExcept demo_system [1] []) = []
   \<and> set (indices_equilibrium_species (allEquilibriumExcept demo_system [1] [])) = {0}
   \<and> set (indices_equilibrium_species (allEquilibriumExcept demo_system [1] [])) \<union> set [1] \<union> set []
       = {0..<numSpecies demo_system}"
proof -
  have h: "\<forall>i \<in> set [1] \<union> set []. i < numSpecies demo_system"
    by (simp add: numSpecies_def demo_system_def)
  have n: "{0..<numSpecies demo_system} - (set [1] \<union> set []) = {0}"
    by (auto simp: numSpecies_def demo_system_def)
  from allEquilibriumExcept_partition [OF h] have
    "indices_kinetic_species (allEquilibriumExcept demo_system [1] []) = [1]"
    "indices_inert_species (allEquilibriumExcept demo_system [1] []) = []"
    "set (indices_equilibrium_species (allEquilibriumExcept demo_system [1] []))
       = {0..<numSpecies demo_system} - (set [1] \<union> set [])"
    "set (indices_equilibrium_species (allEquilibriumExcept demo_system [1] [])) \<union> set [1] \<union> set []
       = {0..<numSpecies demo_system}"
    by blast+
  moreover have "list_all (\<lambda>i. i < numSpecies demo_system) ([1] @ [])"
    by (simp add: numSpecies_def demo_system_def)
  ultimately show ?thesis using n by (simp only: simp_thms)
qed

section \<open>The loops over the amount vector\<close>

lemma scale_rows_length: "scale_rows s pos k v = Some v' \<Longrightarrow> length v' = length v"
  by (induction s pos k v rule: scale_rows.induct) (auto split: if_splits)

lemma scale_rows_nth:
  "scale_rows s pos k v = Some v' \<Longrightarrow> j < length v \<Longrightarrow>
     v' ! j = (if pos \<le> j \<and> j < pos + k then v ! j * s else v ! j)"
proof (induction s pos k v arbitrary: v' rule: scale_rows.induct)
  case (1 scalar pos v)
  then show ?case by simp
next
  case (2 scalar pos k v)
  from "2.prems" have lt: "pos < length v"
    and rec: "scale_rows scalar (Suc pos) k (v[pos := v ! pos * scalar]) = Some v'"
    by (auto split: if_splits)
  from "2.prems"(2) have j: "j < length (v[pos := v ! pos * scalar])" by simp
  show ?case
  proof (cases "j = pos")
    case True
    with "2.IH"[OF lt rec j] lt show ?thesis by simp
  next
    case False
    with "2.IH"[OF lt rec j] show ?thesis by (auto simp: nth_list_update)
  qed
qed

lemma scale_rows_defined: "pos + k \<le> length v \<Longrightarrow> \<exists>v'. scale_rows s pos k v = Some v'"
  by (induction s pos k v rule: scale_rows.induct) auto

lemma scale_rows_all: "scale_rows s 0 (length v) v = Some (map (\<lambda>x. x * s) v)"
proof -
  obtain v' where v': "scale_rows s 0 (length v) v = Some v'"
    using scale_rows_defined[of 0 "length v" v s] by auto
  have "v' = map (\<lambda>x. x * s) v"
    by (rule nth_equalityI) (use scale_rows_length[OF v'] scale_rows_nth[OF v'] in auto)
  with v' show ?thesis by simp
qed

section \<open>Scaling the amounts\<close>

text \<open>
  Claim C6. For a scalar \<open>s \<ge> 0\<close>, \<open>scaleSpeciesAmounts s\<close> returns normally and
  the state it leaves differs from the old one in the amount vector only, where every
  entry is the old entry times \<open>s\<close> (so \<open>T\<close>, \<open>P\<close>, \<open>y\<close> and \<open>z\<close> are the old
  ones); for \<open>s < 0\<close> the call throws the negative-scalar exception and the state is
  the old one.
\<close>

theorem scaleSpeciesAmounts_scales:
  "(0 \<le> s \<longrightarrow> scaleSpeciesAmounts s st
        = Done (st\<lparr>speciesAmounts := map (\<lambda>a. a * s) (speciesAmounts st)\<rparr>))
   \<and> (s < 0 \<longrightarrow> scaleSpeciesAmounts s st = Raised NegativeScalar st)"
  by (simp add: scaleSpeciesAmounts_def scale_rows_all stored_def)

theorem scaleSpeciesAmounts_scales_witness:
  "(0::real) \<le> 2 \<and> (-1::real) < 0
   \<and> scaleSpeciesAmounts 2 ((ChemicalState_of demo_system)\<lparr>speciesAmounts := [1, 3]\<rparr>)
       = Done ((ChemicalState_of demo_system)\<lparr>speciesAmounts := [2, 6]\<rparr>)
   \<and> scaleSpeciesAmounts (-1) ((ChemicalState_of demo_system)\<lparr>speciesAmounts := [1, 3]\<rparr>)
       = Raised NegativeScalar ((ChemicalState_of demo_system)\<lparr>speciesAmounts := [1, 3]\<rparr>)"
  using scaleSpeciesAmounts_scales [of 2 "(ChemicalState_of demo_system)\<lparr>speciesAmounts := [1, 3]\<rparr>"]
    scaleSpeciesAmounts_scales [of "-1" "(ChemicalState_of demo_system)\<lparr>speciesAmounts := [1, 3]\<rparr>"]
  by simp

section \<open>The small system, evaluated\<close>

lemma demo_state [simp]:
  "speciesAmounts (ChemicalState_of demo_system) = [0, 0]"
  "system (ChemicalState_of demo_system) = demo_system"
  "temperature (ChemicalState_of demo_system) = 298.15"
  "pressure (ChemicalState_of demo_system) = 100000"
  "numSpecies demo_system = 2"
  "species demo_system = [\<lparr>species_name = ''H2O(l)'', molarMass = 0.018\<rparr>,
                           \<lparr>species_name = ''H+'', molarMass = 0.001\<rparr>]"
  by (simp_all add: ChemicalState_of_def zeros_def numSpecies_def demo_system_def)

lemma water_state [simp]:
  "speciesAmounts (ChemicalState_of water_only) = [0]"
  "system (ChemicalState_of water_only) = water_only"
  "temperature (ChemicalState_of water_only) = 298.15"
  "pressure (ChemicalState_of water_only) = 100000"
  "numSpecies water_only = 1"
  "species water_only = [\<lparr>species_name = ''H2O(l)'', molarMass = 0.018\<rparr>]"
  by (simp_all add: ChemicalState_of_def zeros_def numSpecies_def demo_system_def water_only_def)

lemma demo_units_table [simp]:
  "convertible demo_units from to \<longleftrightarrow> from = to \<and> (from = ''mol'' \<or> from = ''kg'')"
  "convert demo_units v from to = v"
  by (simp_all add: demo_units_def)

lemma demo_properties [simp]:
  "activities demo_system T P n = [1, 1]"
  "phaseVolumes demo_system T P n = [1]"
  "activities water_only T P n = [1]"
  "phaseVolumes water_only T P n = [1]"
  "indexSpecies_unknown demo_system nm = 2"
  "indexSpecies_unknown water_only nm = 1"
  by (simp_all add: demo_system_def water_only_def)

section \<open>A call that throws leaves the state as it was\<close>

lemma stored_Raised: "stored st r \<noteq> Raised e st'"
  by (simp add: stored_def split: option.splits)

lemma stored_Done: "stored st r = Done st' \<Longrightarrow> \<exists>v. r = Some v \<and> st' = st\<lparr>speciesAmounts := v\<rparr>"
  by (auto simp: stored_def split: option.splits)

lemma with_value_Raised:
  "with_value r st f = Raised e st' \<Longrightarrow> (\<And>v. f v = Raised e st' \<Longrightarrow> st' = st) \<Longrightarrow> st' = st"
  by (auto simp: with_value_def split: result.splits)

lemma with_value_Done:
  "with_value r st f = Done st' \<Longrightarrow> \<exists>v. r = Returns v \<and> f v = Done st'"
  by (auto simp: with_value_def split: result.splits)

lemma setTemperature_Raised: "setTemperature v st = Raised e st' \<Longrightarrow> st' = st"
  by (simp add: setTemperature_def split: if_splits)

lemma setPressure_Raised: "setPressure v st = Raised e st' \<Longrightarrow> st' = st"
  by (simp add: setPressure_def split: if_splits)

lemma setSpeciesAmount_Raised: "setSpeciesAmount i a st = Raised e st' \<Longrightarrow> st' = st"
  by (simp add: setSpeciesAmount_def Let_def split: if_splits)

lemma setSpeciesAmount_units_Raised:
  "setSpeciesAmount_units U i a u st = Raised e st' \<Longrightarrow> st' = st"
  unfolding setSpeciesAmount_units_def Let_def
  by (auto split: if_splits elim!: with_value_Raised dest: setSpeciesAmount_Raised)

lemma scaleSpeciesAmounts_Raised: "scaleSpeciesAmounts s st = Raised e st' \<Longrightarrow> st' = st"
  by (simp add: scaleSpeciesAmounts_def stored_Raised split: if_splits)

lemma scaleSpeciesAmountsInPhase_Raised:
  "scaleSpeciesAmountsInPhase i s st = Raised e st' \<Longrightarrow> st' = st"
  by (simp add: scaleSpeciesAmountsInPhase_def Let_def stored_Raised split: if_splits)

lemma setVolume_Raised: "setVolume v st = Raised e st' \<Longrightarrow> st' = st"
  unfolding setVolume_def Let_def
  by (auto split: if_splits dest: scaleSpeciesAmounts_Raised)

lemma setPhaseVolume_Raised: "setPhaseVolume i v st = Raised e st' \<Longrightarrow> st' = st"
  unfolding setPhaseVolume_def Let_def
  by (auto split: if_splits elim!: with_value_Raised dest: scaleSpeciesAmountsInPhase_Raised)

lemma call_Raised: "call U m st = Raised e st' \<Longrightarrow> st' = st"
proof (cases m)
  case (SetTemperatureUnits v u)
  then show "call U m st = Raised e st' \<Longrightarrow> st' = st"
    by (auto simp: setTemperature_units_def elim!: with_value_Raised dest: setTemperature_Raised)
next
  case (SetPressureUnits v u)
  then show "call U m st = Raised e st' \<Longrightarrow> st' = st"
    by (auto simp: setPressure_units_def elim!: with_value_Raised dest: setPressure_Raised)
next
  case (SetSpeciesAmountName nm a)
  then show "call U m st = Raised e st' \<Longrightarrow> st' = st"
    by (auto simp: setSpeciesAmount_name_def elim!: with_value_Raised dest: setSpeciesAmount_Raised)
next
  case (SetSpeciesAmountNameUnits nm a u)
  then show "call U m st = Raised e st' \<Longrightarrow> st' = st"
    by (auto simp: setSpeciesAmount_name_units_def elim!: with_value_Raised
        dest: setSpeciesAmount_units_Raised)
qed (auto simp: setSpeciesAmounts_scalar_def setSpeciesAmounts_def setSpeciesAmounts_indices_def
      setElementPotentials_def setSpeciesPotentials_def setPhaseVolume_name_def Let_def stored_Raised
      split: if_splits
      dest: setTemperature_Raised setPressure_Raised setSpeciesAmount_Raised
        setSpeciesAmount_units_Raised setVolume_Raised setPhaseVolume_Raised
        scaleSpeciesAmounts_Raised scaleSpeciesAmountsInPhase_Raised)

text \<open>
  Claim C2. Whenever a call of a mutator throws, the state it was called on is the
  state before the call: every check of a mutator comes before its first write. In
  particular \<open>setSpeciesAmounts\<close> with a vector whose length is not the number of
  species throws the dimension-mismatch exception, and the whole state (amounts,
  \<open>T\<close>, \<open>P\<close>, \<open>y\<close>, \<open>z\<close>) is the one before the call. (An access outside a
  vector is no exception, and nothing is said about the state after it.)
\<close>

theorem failed_mutation_leaves_state:
  "(call U m st = Raised e st' \<longrightarrow> st' = st)
   \<and> (length v \<noteq> numSpecies (system st)
        \<longrightarrow> setSpeciesAmounts v st = Raised DimensionMismatch st)"
  using call_Raised by (auto simp: setSpeciesAmounts_def)

theorem failed_mutation_leaves_state_witness:
  "call demo_units (SetVolume (-1)) (ChemicalState_of demo_system)
     = Raised NegativeVolume (ChemicalState_of demo_system)
   \<and> length [1::real] \<noteq> numSpecies (system (ChemicalState_of demo_system))
   \<and> setSpeciesAmounts [1] (ChemicalState_of demo_system)
       = Raised DimensionMismatch (ChemicalState_of demo_system)"
proof -
  have len: "length [1::real] \<noteq> numSpecies (system (ChemicalState_of demo_system))"
    by simp
  obtain e st' where r: "call demo_units (SetVolume (-1)) (ChemicalState_of demo_system) = Raised e st'"
    and e: "e = NegativeVolume"
    by (simp add: setVolume_def)
  from failed_mutation_leaves_state
         [of demo_units "SetVolume (-1)" "ChemicalState_of demo_system" e st' "[1]"] r len
  have "st' = ChemicalState_of demo_system"
    and "setSpeciesAmounts [1] (ChemicalState_of demo_system)
           = Raised DimensionMismatch (ChemicalState_of demo_system)"
    by blast+
  with r e len show ?thesis by simp
qed

section \<open>The invariant of the state\<close>

lemma assign_rows_length: "assign_rows is xs v = Some v' \<Longrightarrow> length v' = length v"
  by (induction "is" xs v rule: assign_rows.induct) (auto split: if_splits)

lemma ChemicalState_of_inv: "invariant (ChemicalState_of sys)"
  by (simp add: invariant_def ChemicalState_of_def zeros_def list_all_iff)

text \<open>
  Claim C1. After every successful mutation no amount is negative, and \<open>T > 0\<close> and
  \<open>P > 0\<close>. The code does not keep this: the two vector overloads of
  \<^verbatim>\<open>setSpeciesAmounts\<close> assert dimensions only. On the state constructed for the
  one-species system, which satisfies the invariant, \<^verbatim>\<open>setSpeciesAmounts(n)\<close> with
  \<open>n = [-1]\<close> and \<^verbatim>\<open>setSpeciesAmounts(n, indices)\<close> with \<open>n = [-1]\<close> and the index
  \<open>0\<close> return normally and leave the amount \<open>-1\<close>, a state that violates the
  invariant. The sibling mutators \<^verbatim>\<open>setSpeciesAmounts(double)\<close> and
  \<^verbatim>\<open>setSpeciesAmount(index, amount)\<close> assert that the amount is not negative and
  throw on the same value.
\<close>

theorem setSpeciesAmounts_stores_negative_amount:
  "invariant (ChemicalState_of water_only)
   \<and> setSpeciesAmounts [-1] (ChemicalState_of water_only)
       = Done ((ChemicalState_of water_only)\<lparr>speciesAmounts := [-1]\<rparr>)
   \<and> setSpeciesAmounts_indices [-1] [0] (ChemicalState_of water_only)
       = Done ((ChemicalState_of water_only)\<lparr>speciesAmounts := [-1]\<rparr>)
   \<and> \<not> invariant ((ChemicalState_of water_only)\<lparr>speciesAmounts := [-1]\<rparr>)
   \<and> setSpeciesAmounts_scalar (-1) (ChemicalState_of water_only)
       = Raised NegativeAmount (ChemicalState_of water_only)
   \<and> setSpeciesAmount 0 (-1) (ChemicalState_of water_only)
       = Raised NegativeAmount (ChemicalState_of water_only)"
  by (simp add: ChemicalState_of_inv setSpeciesAmounts_def setSpeciesAmounts_indices_def
      stored_def setSpeciesAmounts_scalar_def setSpeciesAmount_def invariant_def)

section \<open>States bound to a system\<close>

lemma stored_bound:
  "stored st r = Done st' \<Longrightarrow> bound_to sys st \<Longrightarrow>
     (\<And>v. r = Some v \<Longrightarrow> length v = length (speciesAmounts st)) \<Longrightarrow> bound_to sys st'"
  by (auto simp: bound_to_def dest!: stored_Done)

lemma setSpeciesAmount_bound:
  "setSpeciesAmount i a st = Done st' \<Longrightarrow> bound_to sys st \<Longrightarrow> bound_to sys st'"
  by (auto simp: setSpeciesAmount_def bound_to_def Let_def split: if_splits)

lemma setSpeciesAmount_units_bound:
  "setSpeciesAmount_units U i a u st = Done st' \<Longrightarrow> bound_to sys st \<Longrightarrow> bound_to sys st'"
  unfolding setSpeciesAmount_units_def Let_def
  by (auto split: if_splits dest!: with_value_Done dest: setSpeciesAmount_bound)

lemma scaleSpeciesAmounts_bound:
  "scaleSpeciesAmounts s st = Done st' \<Longrightarrow> bound_to sys st \<Longrightarrow> bound_to sys st'"
  by (auto simp: scaleSpeciesAmounts_def split: if_splits
      elim!: stored_bound dest: scale_rows_length)

lemma scaleSpeciesAmountsInPhase_bound:
  "scaleSpeciesAmountsInPhase i s st = Done st' \<Longrightarrow> bound_to sys st \<Longrightarrow> bound_to sys st'"
  by (auto simp: scaleSpeciesAmountsInPhase_def Let_def split: if_splits
      elim!: stored_bound dest: scale_rows_length)

lemma setVolume_bound: "setVolume v st = Done st' \<Longrightarrow> bound_to sys st \<Longrightarrow> bound_to sys st'"
  unfolding setVolume_def Let_def
  by (auto split: if_splits dest: scaleSpeciesAmounts_bound)

lemma setPhaseVolume_bound:
  "setPhaseVolume i v st = Done st' \<Longrightarrow> bound_to sys st \<Longrightarrow> bound_to sys st'"
  unfolding setPhaseVolume_def Let_def
  by (auto split: if_splits dest!: with_value_Done dest: scaleSpeciesAmountsInPhase_bound)

lemma call_bound: "call U m st = Done st' \<Longrightarrow> bound_to sys st \<Longrightarrow> bound_to sys st'"
proof (cases m)
  case (SetSpeciesAmountsIndices v "is")
  then show "call U m st = Done st' \<Longrightarrow> bound_to sys st \<Longrightarrow> bound_to sys st'"
    by (auto simp: setSpeciesAmounts_indices_def split: if_splits
        elim!: stored_bound dest: assign_rows_length)
next
  case (SetSpeciesAmountsScalar v)
  then show "call U m st = Done st' \<Longrightarrow> bound_to sys st \<Longrightarrow> bound_to sys st'"
    by (auto simp: setSpeciesAmounts_scalar_def bound_to_def split: if_splits)
next
  case (SetSpeciesAmounts v)
  then show "call U m st = Done st' \<Longrightarrow> bound_to sys st \<Longrightarrow> bound_to sys st'"
    by (auto simp: setSpeciesAmounts_def bound_to_def split: if_splits)
next
  case (SetTemperature v)
  then show "call U m st = Done st' \<Longrightarrow> bound_to sys st \<Longrightarrow> bound_to sys st'"
    by (auto simp: setTemperature_def bound_to_def split: if_splits)
next
  case (SetTemperatureUnits v u)
  then show "call U m st = Done st' \<Longrightarrow> bound_to sys st \<Longrightarrow> bound_to sys st'"
    by (auto simp: setTemperature_units_def setTemperature_def bound_to_def
        split: if_splits dest!: with_value_Done)
next
  case (SetPressure v)
  then show "call U m st = Done st' \<Longrightarrow> bound_to sys st \<Longrightarrow> bound_to sys st'"
    by (auto simp: setPressure_def bound_to_def split: if_splits)
next
  case (SetPressureUnits v u)
  then show "call U m st = Done st' \<Longrightarrow> bound_to sys st \<Longrightarrow> bound_to sys st'"
    by (auto simp: setPressure_units_def setPressure_def bound_to_def
        split: if_splits dest!: with_value_Done)
next
  case (SetElementPotentials y)
  then show "call U m st = Done st' \<Longrightarrow> bound_to sys st \<Longrightarrow> bound_to sys st'"
    by (auto simp: setElementPotentials_def bound_to_def)
next
  case (SetSpeciesPotentials z)
  then show "call U m st = Done st' \<Longrightarrow> bound_to sys st \<Longrightarrow> bound_to sys st'"
    by (auto simp: setSpeciesPotentials_def bound_to_def)
qed (auto simp: setSpeciesAmount_name_def setSpeciesAmount_name_units_def
      setPhaseVolume_name_def Let_def
      dest!: with_value_Done
      dest: setSpeciesAmount_bound setSpeciesAmount_units_bound setVolume_bound
        setPhaseVolume_bound scaleSpeciesAmounts_bound scaleSpeciesAmountsInPhase_bound)

lemma ChemicalState_of_bound: "bound_to sys (ChemicalState_of sys)"
  by (simp add: bound_to_def ChemicalState_of_def zeros_def)

section \<open>The sum of two states\<close>

text \<open>
  Claim C4. For two states bound to the same system, \<open>state1 + state2\<close> returns a
  new state: the left operand with its amount vector replaced by the elementwise sum
  of the two amount vectors. Its temperature, pressure, \<open>y\<close> and \<open>z\<close> (and its
  system) are those of the left operand. The operands are arguments of a function and
  are not changed.
\<close>

theorem state_plus_sum:
  assumes "bound_to sys l" and "bound_to sys r"
  shows "state_plus l r
           = Returns (l\<lparr>speciesAmounts := map2 (+) (speciesAmounts l) (speciesAmounts r)\<rparr>)"
  using assms
  by (simp add: bound_to_def state_plus_def vector_sum_def then_result_def
      setSpeciesAmounts_def returned_def)

theorem state_plus_sum_witness:
  "bound_to demo_system ((ChemicalState_of demo_system)\<lparr>temperature := 300, speciesAmounts := [1, 2]\<rparr>)
   \<and> bound_to demo_system ((ChemicalState_of demo_system)\<lparr>pressure := 7, speciesAmounts := [3, 4]\<rparr>)
   \<and> state_plus ((ChemicalState_of demo_system)\<lparr>temperature := 300, speciesAmounts := [1, 2]\<rparr>)
        ((ChemicalState_of demo_system)\<lparr>pressure := 7, speciesAmounts := [3, 4]\<rparr>)
       = Returns ((ChemicalState_of demo_system)\<lparr>temperature := 300, speciesAmounts := [4, 6]\<rparr>)"
proof -
  let ?l = "(ChemicalState_of demo_system)\<lparr>temperature := 300, speciesAmounts := [1, 2]\<rparr>"
  let ?r = "(ChemicalState_of demo_system)\<lparr>pressure := 7, speciesAmounts := [3, 4]\<rparr>"
  have l: "bound_to demo_system ?l" and r: "bound_to demo_system ?r"
    by (simp_all add: bound_to_def)
  from state_plus_sum [OF l r] l r show ?thesis by simp
qed

section \<open>Quantity extraction\<close>

lemma position_member:
  "x \<in> set xs \<Longrightarrow> \<exists>i. position x xs = Some i \<and> i < length xs \<and> xs ! i = x"
  by (induction xs) auto


lemma indexSpecies_member:
  assumes "nm \<in> set (map species_name (species sys))"
  shows "indexSpecies sys nm < numSpecies sys"
    and "species_name (species sys ! indexSpecies sys nm) = nm"
proof -
  from position_member[OF assms] obtain i
    where i: "position nm (map species_name (species sys)) = Some i"
      and lt: "i < length (species sys)" and nm: "map species_name (species sys) ! i = nm"
    by auto
  from i lt show "indexSpecies sys nm < numSpecies sys"
    by (simp add: indexSpecies_def numSpecies_def)
  from i lt nm show "species_name (species sys ! indexSpecies sys nm) = nm"
    by (simp add: indexSpecies_def)
qed


lemma split_pH: "split ''pH'' '':'' = [''pH'']"
  by (simp add: split_def)

lemma extract_pH:
  "extract_quantity U w st ''pH''
     = then_result
         (at_index (activities (system st) (temperature st) (pressure st) (speciesAmounts st))
            (indexSpecies (system st) ''H+''))
         (\<lambda>aH. Returns (- log 10 aH))"
  by (simp add: extract_quantity_def split_pH then_result_def at_index_def first_char_def Let_def)

text \<open>
  Claim C7. When the system has a species named \<open>H+\<close> (and the activity evaluator
  returns one activity for each species), \<open>extract(state, "pH")\<close> returns
  \<open>- log\<^sub>1\<^sub>0\<close> of the entry of the activity vector, evaluated at the state's
  \<open>(T, P, n)\<close>, at the index of that species. (For a positive activity this is the
  number that \<^verbatim>\<open>-std::log10(aH)\<close> rounds; the infinity or NaN that the code returns
  for an activity that is not positive has no counterpart among the reals.)
\<close>

theorem extract_pH_value:
  assumes "''H+'' \<in> set (map species_name (species (system st)))"
    and "length (activities (system st) (temperature st) (pressure st) (speciesAmounts st))
           = numSpecies (system st)"
  shows "species_name (species (system st) ! indexSpecies (system st) ''H+'') = ''H+''
       \<and> extract_quantity U w st ''pH''
           = Returns (- log 10 (activities (system st) (temperature st) (pressure st)
                                  (speciesAmounts st) ! indexSpecies (system st) ''H+''))"
  using indexSpecies_member[OF assms(1)] assms(2)
  by (simp add: extract_pH at_index_def then_result_def)

theorem extract_pH_value_witness:
  "''H+'' \<in> set (map species_name (species (system ((ChemicalState_of demo_system)))))
   \<and> length (activities demo_system 298.15 100000 [0, 0]) = numSpecies demo_system
   \<and> indexSpecies demo_system ''H+'' = 1
   \<and> extract_quantity demo_units 0.018 (ChemicalState_of demo_system) ''pH'' = Returns 0"
proof -
  let ?S = "ChemicalState_of demo_system"
  have a: "activities demo_system 298.15 100000 [0, 0] = [1, 1]"
    by simp
  have h1: "''H+'' \<in> set (map species_name (species (system ?S)))" by simp
  have h2: "length (activities (system ?S) (temperature ?S) (pressure ?S) (speciesAmounts ?S))
              = numSpecies (system ?S)"
    by simp
  have i: "indexSpecies demo_system ''H+'' = 1" by (simp add: indexSpecies_def)
  from extract_pH_value [OF h1 h2, of demo_units "0.018"] h1 a i show ?thesis by simp
qed









section \<open>Setting one amount with units\<close>





end
